theory Spec2Isabelle
  imports Complex_Main "HOL-Library.List_Lexorder"
begin

section \<open>Python values used by the notebook\<close>

text \<open>
  The notebook \<^verbatim>\<open>forest_version/11_Kernel_Methods.ipynb\<close> is plain Python over pyQuil
  and NumPy. Exceptions are values of \<open>py_error\<close>; a fallible expression has a type
  \<open>py_error + 'a\<close> with \<open>Inl\<close> for the raised exception.
\<close>

datatype py_error = IndexError | ZeroDivisionError

text \<open>
  \<^verbatim>\<open>xs[i]\<close> on a Python sequence: a negative index counts from the end, an index out of
  range raises \<^verbatim>\<open>IndexError\<close>.
\<close>

definition py_getitem :: "'a list \<Rightarrow> int \<Rightarrow> py_error + 'a" where
  "py_getitem xs i =
     (if 0 \<le> i \<and> i < int (length xs) then Inr (xs ! nat i)
      else if i < 0 \<and> - int (length xs) \<le> i then Inr (xs ! nat (int (length xs) + i))
      else Inl IndexError)"

text \<open>Indexing a \<^verbatim>\<open>str\<close> gives a \<^verbatim>\<open>str\<close> of length one.\<close>

definition str_getitem :: "string \<Rightarrow> int \<Rightarrow> py_error + string" where
  "str_getitem s i = (case py_getitem s i of Inl e \<Rightarrow> Inl e | Inr c \<Rightarrow> Inr [c])"

text \<open>\<^verbatim>\<open>str(n)\<close> for a Python integer: its decimal digits, with a sign when negative.\<close>

definition digit_char :: "nat \<Rightarrow> char" where
  "digit_char d = ''0123456789'' ! d"

fun str_nat :: "nat \<Rightarrow> string" where
  "str_nat n = (if n < 10 then [digit_char n] else str_nat (n div 10) @ [digit_char (n mod 10)])"

declare str_nat.simps [simp del]

definition py_str :: "int \<Rightarrow> string" where
  "py_str i = (if i < 0 then CHR ''-'' # str_nat (nat (- i)) else str_nat (nat i))"

text \<open>
  The counts that reach \<^verbatim>\<open>postselect\<close> are the \<^verbatim>\<open>numpy.int64\<close> entries of the counts
  array of \<^verbatim>\<open>np.unique\<close>, which the notebook zips into the dictionary unconverted.
  \<^verbatim>\<open>sum\<close> starts from the Python integer 0, so the sum of an empty sequence is a Python
  \<^verbatim>\<open>int\<close> and the sum of a non-empty sequence of counts is a \<^verbatim>\<open>numpy.int64\<close>. A value
  is tagged with which of the two it is. Counts stay far below \<open>2 ^ 63\<close>; wrap-around
  of \<^verbatim>\<open>numpy.int64\<close> is outside the model.
\<close>

datatype pynum = PyInt int | NpInt64 int

fun num_val :: "pynum \<Rightarrow> int" where
  "num_val (PyInt a) = a"
| "num_val (NpInt64 a) = a"

definition py_sum :: "int list \<Rightarrow> pynum" where
  "py_sum xs = (if xs = [] then PyInt 0 else NpInt64 (sum_list xs))"

text \<open>
  A float is the exact rational it stands for (rounding is outside the model), or one of
  \<^verbatim>\<open>nan\<close>, \<^verbatim>\<open>inf\<close>, \<^verbatim>\<open>-inf\<close>.
\<close>

datatype pyfloat = Float rat | FloatNaN | FloatInf | FloatNegInf

text \<open>
  NumPy's true division of integers: a zero divisor raises nothing (a \<^verbatim>\<open>RuntimeWarning\<close>
  is emitted); the quotient is \<^verbatim>\<open>nan\<close> for \<open>0 / 0\<close> and an infinity otherwise.
\<close>

definition np_true_divide :: "int \<Rightarrow> int \<Rightarrow> pyfloat" where
  "np_true_divide a b =
     (if b \<noteq> 0 then Float (of_int a / of_int b)
      else if a = 0 then FloatNaN
      else if 0 < a then FloatInf
      else FloatNegInf)"

text \<open>
  \<^verbatim>\<open>a / b\<close>. Between two Python integers it raises \<^verbatim>\<open>ZeroDivisionError\<close> when \<open>b\<close> is
  zero. When either operand is a \<^verbatim>\<open>numpy.int64\<close> the division is NumPy's.
\<close>

fun py_truediv :: "pynum \<Rightarrow> pynum \<Rightarrow> py_error + pyfloat" where
  "py_truediv (PyInt a) (PyInt b) =
     (if b = 0 then Inl ZeroDivisionError else Inr (Float (of_int a / of_int b)))"
| "py_truediv a b = Inr (np_true_divide (num_val a) (num_val b))"

section \<open>Quil programs\<close>

text \<open>
  A pyQuil \<^verbatim>\<open>Program\<close> keeps the gate definitions it was given and the list of its
  instructions; \<^verbatim>\<open>circuit += x\<close> appends \<open>x\<close> to one of the two. A gate application
  carries the gate's name, its parameters and the qubits it acts on, controls first.
  The type \<open>'a\<close> is the type of gate parameters (angles).
\<close>

datatype qexpr =
    Num int
  | Parameter string
  | Div qexpr qexpr
  | Neg qexpr
  | quil_cos qexpr
  | quil_sin qexpr

record defgate =
  gate_name :: string
  matrix :: "qexpr list list"
  parameters :: "qexpr list"

datatype 'a instr =
    Gate string "'a list" "nat list"
  | Declare string string nat
  | MEASURE nat "string \<times> nat"

record 'a program =
  defined_gates :: "defgate list"
  instructions :: "'a instr list"

definition Program :: "'a program" where
  "Program = \<lparr>defined_gates = [], instructions = []\<rparr>"

definition add_defgate :: "'a program \<Rightarrow> defgate \<Rightarrow> 'a program" where
  "add_defgate circuit d = circuit\<lparr>defined_gates := defined_gates circuit @ [d]\<rparr>"

definition add_inst :: "'a program \<Rightarrow> 'a instr \<Rightarrow> 'a program" where
  "add_inst circuit i = circuit\<lparr>instructions := instructions circuit @ [i]\<rparr>"

text \<open>
  \<^verbatim>\<open>circuit.declare(name, memory_type, memory_size)\<close> appends the declaration and returns
  the name of the declared region; \<^verbatim>\<open>ro[q]\<close> is then the cell \<open>(ro, q)\<close>.
\<close>

definition declare_mem :: "'a program \<Rightarrow> string \<Rightarrow> string \<Rightarrow> nat \<Rightarrow> 'a program \<times> string" where
  "declare_mem circuit name memory_type memory_size =
     (add_inst circuit (Declare name memory_type memory_size), name)"

definition H :: "nat \<Rightarrow> 'a instr" where
  "H q = Gate ''H'' [] [q]"

definition X :: "nat \<Rightarrow> 'a instr" where
  "X q = Gate ''X'' [] [q]"

definition CNOT :: "nat \<Rightarrow> nat \<Rightarrow> 'a instr" where
  "CNOT control target = Gate ''CNOT'' [] [control, target]"

definition CCNOT :: "nat \<Rightarrow> nat \<Rightarrow> nat \<Rightarrow> 'a instr" where
  "CCNOT control1 control2 target = Gate ''CCNOT'' [] [control1, control2, target]"

subsection \<open>The two user-defined gates\<close>

definition theta :: qexpr where
  "theta = Parameter ''theta''"

definition cry :: "qexpr list list" where
  "cry =
    [[Num 1, Num 0, Num 0, Num 0],
     [Num 0, Num 1, Num 0, Num 0],
     [Num 0, Num 0, quil_cos (Div theta (Num 2)), Neg (quil_sin (Div theta (Num 2)))],
     [Num 0, Num 0, quil_sin (Div theta (Num 2)), quil_cos (Div theta (Num 2))]]"

definition cry_definition :: defgate where
  "cry_definition = \<lparr>gate_name = ''CRY'', matrix = cry, parameters = [theta]\<rparr>"

definition CRY :: "'a \<Rightarrow> nat \<Rightarrow> nat \<Rightarrow> 'a instr" where
  "CRY angle q0 q1 = Gate (gate_name cry_definition) [angle] [q0, q1]"

definition alpha :: qexpr where
  "alpha = Parameter ''alpha''"

definition ccry :: "qexpr list list" where
  "ccry =
    [[Num 1, Num 0, Num 0, Num 0, Num 0, Num 0, Num 0, Num 0],
     [Num 0, Num 1, Num 0, Num 0, Num 0, Num 0, Num 0, Num 0],
     [Num 0, Num 0, Num 1, Num 0, Num 0, Num 0, Num 0, Num 0],
     [Num 0, Num 0, Num 0, Num 1, Num 0, Num 0, Num 0, Num 0],
     [Num 0, Num 0, Num 0, Num 0, Num 1, Num 0, Num 0, Num 0],
     [Num 0, Num 0, Num 0, Num 0, Num 0, Num 1, Num 0, Num 0],
     [Num 0, Num 0, Num 0, Num 0, Num 0, Num 0,
        quil_cos (Div alpha (Num 2)), Neg (quil_sin (Div alpha (Num 2)))],
     [Num 0, Num 0, Num 0, Num 0, Num 0, Num 0,
        quil_sin (Div alpha (Num 2)), quil_cos (Div alpha (Num 2))]]"

definition ccry_definition :: defgate where
  "ccry_definition = \<lparr>gate_name = ''CCRY'', matrix = ccry, parameters = [alpha]\<rparr>"

definition CCRY :: "'a \<Rightarrow> nat \<Rightarrow> nat \<Rightarrow> nat \<Rightarrow> 'a instr" where
  "CCRY angle q0 q1 q2 = Gate (gate_name ccry_definition) [angle] [q0, q1, q2]"

section \<open>State preparation and interference\<close>

text \<open>
  \<^verbatim>\<open>prepare_state(angles)\<close>. The statements run in the source's order, so a list with
  fewer than two angles raises \<^verbatim>\<open>IndexError\<close> at \<^verbatim>\<open>angles[0]\<close> or \<^verbatim>\<open>angles[1]\<close> and the
  local circuit is lost.
\<close>

definition prepare_state :: "'a list \<Rightarrow> py_error + 'a program" where
  "prepare_state angles =
     (let ancilla_qubit = 0;
          index_qubit = 1;
          data_qubit = 2;
          class_qubit = 3;
          circuit = Program;
          circuit = add_defgate circuit cry_definition;
          circuit = add_defgate circuit ccry_definition;
          circuit = add_inst circuit (H ancilla_qubit);
          circuit = add_inst circuit (H index_qubit)
      in case py_getitem angles 0 of
           Inl e \<Rightarrow> Inl e
         | Inr angle0 \<Rightarrow>
            (let circuit = add_inst circuit (CRY angle0 ancilla_qubit data_qubit);
                 circuit = add_inst circuit (X ancilla_qubit);
                 circuit = add_inst circuit (CCNOT ancilla_qubit index_qubit data_qubit);
                 circuit = add_inst circuit (X index_qubit)
             in case py_getitem angles 1 of
                  Inl e \<Rightarrow> Inl e
                | Inr angle1 \<Rightarrow>
                   (let circuit =
                          add_inst circuit (CCRY angle1 ancilla_qubit index_qubit data_qubit);
                        circuit = add_inst circuit (CNOT index_qubit class_qubit)
                    in Inr circuit)))"

text \<open>
  \<^verbatim>\<open>interfere_data_and_test_instances(circuit, angles)\<close>. The loop over \<^verbatim>\<open>range(4)\<close> is a
  fold over \<open>[0..<4]\<close>. pyQuil's \<^verbatim>\<open>+=\<close> extends the program object in place and the
  function returns that same object; the model returns the extended program.
\<close>

definition interfere_data_and_test_instances :: "'a program \<Rightarrow> 'b \<Rightarrow> 'a program" where
  "interfere_data_and_test_instances circuit angles =
     (let (circuit, ro) = declare_mem circuit ''ro'' ''BIT'' 4;
          circuit = add_inst circuit (H 0)
      in foldl (\<lambda>circuit q. add_inst circuit (MEASURE q (ro, q))) circuit [0..<4])"

text \<open>
  The outcome string of one shot, as the notebook builds it from a row of the sampled
  array: \<^verbatim>\<open>''.join(list(map(str, l)))\<close>.
\<close>

definition outcome_string :: "int list \<Rightarrow> string" where
  "outcome_string l = concat (map py_str l)"

section \<open>Postselection\<close>

text \<open>
  A Python \<^verbatim>\<open>dict\<close> is an association list in insertion order whose keys are distinct.
  \<^verbatim>\<open>dict(pairs)\<close> inserts the pairs one after the other: a key seen again keeps its
  place and takes the later value.
\<close>

type_synonym counts = "(string \<times> int) list"

definition dict_setitem :: "('k \<times> 'v) list \<Rightarrow> 'k \<Rightarrow> 'v \<Rightarrow> ('k \<times> 'v) list" where
  "dict_setitem d k v =
     (if k \<in> set (map fst d) then map (\<lambda>(k', v'). if k' = k then (k', v) else (k', v')) d
      else d @ [(k, v)])"

definition dict_of :: "('k \<times> 'v) list \<Rightarrow> ('k \<times> 'v) list" where
  "dict_of pairs = foldl (\<lambda>d (k, v). dict_setitem d k v) [] pairs"

text \<open>
  The lambda \<^verbatim>\<open>post_select\<close>: the items whose key starts with \<^verbatim>\<open>'0'\<close>. The comprehension
  reads \<^verbatim>\<open>state[0]\<close> of every key in turn, so an empty key raises \<^verbatim>\<open>IndexError\<close>.
\<close>

fun post_select :: "counts \<Rightarrow> py_error + counts" where
  "post_select [] = Inr []"
| "post_select ((state, occurences) # rest) =
     (case str_getitem state 0 of
        Inl e \<Rightarrow> Inl e
      | Inr c \<Rightarrow>
         (case post_select rest of
            Inl e \<Rightarrow> Inl e
          | Inr kept \<Rightarrow> Inr (if c = ''0'' then (state, occurences) # kept else kept)))"

text \<open>
  The lambda \<^verbatim>\<open>retrieve_class\<close>, with the dictionary \<^verbatim>\<open>postselection\<close> it closes over as
  its first argument: the counts of the items whose key ends with \<^verbatim>\<open>str(binary_class)\<close>.
\<close>

fun retrieve_class :: "counts \<Rightarrow> int \<Rightarrow> py_error + int list" where
  "retrieve_class [] binary_class = Inr []"
| "retrieve_class ((state, occurences) # rest) binary_class =
     (case str_getitem state (- 1) of
        Inl e \<Rightarrow> Inl e
      | Inr c \<Rightarrow>
         (case retrieve_class rest binary_class of
            Inl e \<Rightarrow> Inl e
          | Inr kept \<Rightarrow> Inr (if c = py_str binary_class then occurences # kept else kept)))"

text \<open>
  \<^verbatim>\<open>postselect(result_counts)\<close> has no \<^verbatim>\<open>return\<close> statement: it prints three lines and its
  value is \<^verbatim>\<open>None\<close>. The model returns what was printed up to the point reached (each
  line as its text and the number formatted into it) together with either the exception
  raised or \<open>()\<close> for \<^verbatim>\<open>None\<close>. Both class probabilities are computed before the last
  two lines are printed.
\<close>

type_synonym printed = "(string \<times> pyfloat) list"

definition postselect :: "counts \<Rightarrow> printed \<times> (py_error + unit)" where
  "postselect result_counts =
     (let total_samples = py_sum (map snd result_counts) in
      case post_select result_counts of
        Inl e \<Rightarrow> ([], Inl e)
      | Inr selected \<Rightarrow>
         (let postselection = dict_of selected;
              postselected_samples = py_sum (map snd postselection) in
          case py_truediv postselected_samples total_samples of
            Inl e \<Rightarrow> ([], Inl e)
          | Inr rate \<Rightarrow>
             (let out = [(''Ancilla post-selection probability was found to be '', rate)] in
              case retrieve_class postselection 0 of
                Inl e \<Rightarrow> (out, Inl e)
              | Inr class0 \<Rightarrow>
              (case py_truediv (py_sum class0) postselected_samples of
                Inl e \<Rightarrow> (out, Inl e)
              | Inr prob_class0 \<Rightarrow>
              (case retrieve_class postselection 1 of
                Inl e \<Rightarrow> (out, Inl e)
              | Inr class1 \<Rightarrow>
              (case py_truediv (py_sum class1) postselected_samples of
                Inl e \<Rightarrow> (out, Inl e)
              | Inr prob_class1 \<Rightarrow>
                 (out @ [(''Probability for class 0 is'', prob_class0),
                         (''Probability for class 1 is'', prob_class1)], Inr ())))))))"

subsection \<open>The estimator in the words of the specification\<close>

text \<open>
  An outcome mapping is a dictionary from 4-bit binary strings to non-negative counts.
  The quantities below follow the specification's steps (total, postselected subset where
  the ancilla bit, position 0, is \<^verbatim>\<open>'0'\<close>, counts per class bit, position 3); they are
  what \<open>postselect\<close> is compared with.
\<close>

definition bit_string :: "string \<Rightarrow> bool" where
  "bit_string state \<longleftrightarrow>
     length state = 4 \<and> list_all (\<lambda>c. c = CHR ''0'' \<or> c = CHR ''1'') state"

definition outcome_mapping :: "counts \<Rightarrow> bool" where
  "outcome_mapping result_counts \<longleftrightarrow>
     distinct (map fst result_counts) \<and>
     list_all (\<lambda>(state, occurences). bit_string state \<and> 0 \<le> occurences) result_counts"

definition spec_total :: "counts \<Rightarrow> int" where
  "spec_total result_counts = sum_list (map snd result_counts)"

definition spec_postselected :: "counts \<Rightarrow> counts" where
  "spec_postselected result_counts =
     filter (\<lambda>(state, occurences). state ! 0 = CHR ''0'') result_counts"

definition spec_postselected_total :: "counts \<Rightarrow> int" where
  "spec_postselected_total result_counts = sum_list (map snd (spec_postselected result_counts))"

definition spec_class :: "counts \<Rightarrow> char \<Rightarrow> counts" where
  "spec_class result_counts k =
     filter (\<lambda>(state, occurences). state ! 3 = k) (spec_postselected result_counts)"

definition spec_class_count :: "counts \<Rightarrow> char \<Rightarrow> int" where
  "spec_class_count result_counts k =
     sum_list (map snd
       (filter (\<lambda>(state, occurences). state ! 3 = k) (spec_postselected result_counts)))"

text \<open>Non-degenerate: some outcome with ancilla bit \<^verbatim>\<open>'0'\<close> has a positive count.\<close>

definition nondegenerate :: "counts \<Rightarrow> bool" where
  "nondegenerate result_counts \<longleftrightarrow>
     list_ex (\<lambda>(state, occurences). state ! 0 = CHR ''0'' \<and> 0 < occurences) result_counts"

section \<open>The angle encoder\<close>

text \<open>
  \<^verbatim>\<open>get_angle\<close> is \<^verbatim>\<open>2*np.arccos(amplitude_0)\<close>. Floating-point numbers are modelled as
  the real numbers they stand for, plus NumPy's \<^verbatim>\<open>nan\<close>; rounding is outside the model.
  NumPy's \<^verbatim>\<open>arccos\<close> raises nothing on a real argument outside \<open>[-1, 1]\<close>: the result is
  \<^verbatim>\<open>nan\<close> (with a \<^verbatim>\<open>RuntimeWarning\<close> under NumPy's default error state), and arithmetic on
  \<^verbatim>\<open>nan\<close> gives \<^verbatim>\<open>nan\<close>.
\<close>

datatype npfloat = Finite real | NaN

definition np_arccos :: "real \<Rightarrow> npfloat" where
  "np_arccos x = (if - 1 \<le> x \<and> x \<le> 1 then Finite (arccos x) else NaN)"

definition np_times :: "real \<Rightarrow> npfloat \<Rightarrow> npfloat" where
  "np_times k v = (case v of Finite x \<Rightarrow> Finite (k * x) | NaN \<Rightarrow> NaN)"

definition get_angle :: "real \<Rightarrow> npfloat" where
  "get_angle amplitude_0 = np_times 2 (np_arccos amplitude_0)"

section \<open>The notebook's top level\<close>

text \<open>
  The code cells run in order and the first exception ends the run. The session records
  whether the two server processes started by the first cell are running, how many
  sample collections (\<^verbatim>\<open>qc.run\<close>) have returned, and what was printed. The backend
  (\<^verbatim>\<open>wrap_in_numshots_loop(1024)\<close>, \<^verbatim>\<open>qc.compile\<close>, \<^verbatim>\<open>qc.run\<close>) is a parameter: it
  maps the circuit to the sampled rows or raises. The plotting cell and the cell printing
  the wavefunction are left out; they touch neither the servers nor the counts.
\<close>

record session =
  qvm_server :: bool
  quilc_server :: bool
  collected :: nat
  stdout :: printed

type_synonym backend = "npfloat program \<Rightarrow> py_error + int list list"

text \<open>
  Modelled from the spec: \<^verbatim>\<open>init_qvm_and_quilc\<close> lives in \<^verbatim>\<open>forest_tools\<close>, which is not
  among the sources. The simulation server has a lifecycle (start, serve, terminate)
  and is acquired before any circuit is compiled: after the call both processes run.
\<close>

definition init_qvm_and_quilc :: session where
  "init_qvm_and_quilc = \<lparr>qvm_server = True, quilc_server = True, collected = 0, stdout = []\<rparr>"

definition training_set :: "real list list" where
  "training_set = [[0, 1], [0.78861006, 0.61489363]]"

definition test_set :: "real list list" where
  "test_set = [[- 0.549, 0.836], [0.053, 0.999]]"

definition test_angles :: "npfloat list" where
  "test_angles = [get_angle (test_set ! 0 ! 0), get_angle (test_set ! 1 ! 0)]"

definition training_angle :: npfloat where
  "training_angle = get_angle (training_set ! 1 ! 0)"

text \<open>
  \<^verbatim>\<open>np.unique(measures, return_counts=True, axis=0)\<close>: the distinct rows in sorted order
  and how often each occurs; then the dictionary from outcome strings to counts.
\<close>

definition np_unique_counts :: "int list list \<Rightarrow> int list list \<times> int list" where
  "np_unique_counts measured =
     (let rows = sort (remdups measured)
      in (rows, map (\<lambda>r. int (count_list measured r)) rows))"

definition count_dict :: "int list list \<Rightarrow> counts" where
  "count_dict measured =
     (let count = np_unique_counts measured
      in dict_of (zip (map outcome_string (fst count)) (snd count)))"

text \<open>
  The cells the notebook writes once per test instance: prepare the state, extend the
  circuit, sample it, count the outcomes, postselect.
\<close>

definition run_test_instance ::
  "backend \<Rightarrow> npfloat list \<Rightarrow> session \<Rightarrow> session \<times> (py_error + unit)" where
  "run_test_instance qc angles s =
     (case prepare_state angles of
        Inl e \<Rightarrow> (s, Inl e)
      | Inr state_preparation \<Rightarrow>
         (let circuit = interfere_data_and_test_instances state_preparation angles in
          case qc circuit of
            Inl e \<Rightarrow> (s, Inl e)
          | Inr measured \<Rightarrow>
             (let s = s\<lparr>collected := collected s + 1\<rparr>;
                  count = count_dict measured;
                  (out, result) = postselect count
              in (s\<lparr>stdout := stdout s @ out\<rparr>, result))))"

text \<open>
  The whole run: both test instances, then the last cell,
  \<^verbatim>\<open>qvm_server.terminate()\<close> and \<^verbatim>\<open>quilc_server.terminate()\<close>.
\<close>

definition notebook :: "backend \<Rightarrow> session \<times> (py_error + unit)" where
  "notebook qc =
     (let s = init_qvm_and_quilc;
          angles = [test_angles ! 0, training_angle]
      in case run_test_instance qc angles s of
           (s, Inl e) \<Rightarrow> (s, Inl e)
         | (s, Inr _) \<Rightarrow>
            (let angles = [test_angles ! 1, training_angle]
             in case run_test_instance qc angles s of
                  (s, Inl e) \<Rightarrow> (s, Inl e)
                | (s, Inr _) \<Rightarrow>
                   (let s = s\<lparr>qvm_server := False\<rparr>;
                        s = s\<lparr>quilc_server := False\<rparr>
                    in (s, Inr ()))))"

subsection \<open>Two backends for concrete runs\<close>

text \<open>
  A backend whose 1024 shots all read ancilla 1, and one whose shots all read
  ancilla 0 and class 1.
\<close>

definition all_ancilla_one :: backend where
  "all_ancilla_one circuit = Inr (replicate 1024 [1, 0, 0, 0])"

definition all_class_one :: backend where
  "all_class_one circuit = Inr (replicate 1024 [0, 0, 0, 1])"

section \<open>Properties of the circuit builders\<close>

lemma upt_0_4: "[0..<4] = [0, 1, 2, 3]"
  by (simp add: upt_rec)

lemma py_str_0: "py_str 0 = ''0''"
  by (simp add: py_str_def str_nat.simps digit_char_def)

lemma py_str_1: "py_str 1 = ''1''"
  by (simp add: py_str_def str_nat.simps digit_char_def)

text \<open>
  Claim C1. For every pair of angles, \<open>prepare_state\<close> returns a program holding the two
  gate definitions and exactly these instructions, in this order: H on the ancilla
  (qubit 0), H on the index (qubit 1), CRY of the first angle with control 0 and target
  2 (data), X on 0, CCNOT with controls 0 and 1 and target 2, X on 1, CCRY of the second
  angle with controls 0 and 1 and target 2, CNOT with control 1 and target 3 (class).
  The result is a program value only: no measurement, declaration or execution is part
  of it.
\<close>

theorem prepare_state_gate_sequence:
  "prepare_state [theta_test, theta_train] =
     Inr \<lparr>defined_gates = [cry_definition, ccry_definition],
          instructions =
            [Gate ''H'' [] [0],
             Gate ''H'' [] [1],
             Gate ''CRY'' [theta_test] [0, 2],
             Gate ''X'' [] [0],
             Gate ''CCNOT'' [] [0, 1, 2],
             Gate ''X'' [] [1],
             Gate ''CCRY'' [theta_train] [0, 1, 2],
             Gate ''CNOT'' [] [1, 3]]\<rparr>"
  by (simp add: prepare_state_def py_getitem_def Program_def add_defgate_def add_inst_def
      H_def X_def CNOT_def CCNOT_def CRY_def CCRY_def cry_definition_def ccry_definition_def)

text \<open>
  Claim C3. \<open>interfere_data_and_test_instances\<close> keeps the gate definitions and the
  instructions of the circuit it is given and appends, after the declaration of the
  4-bit readout region \<open>ro\<close>, one H on qubit 0 (the ancilla) and then the four
  measurements of qubit \<open>q\<close> into \<open>ro[q]\<close> for \<open>q = 0, 1, 2, 3\<close>; H is the only gate
  appended. In the outcome string built from a row \<open>[a, i, d, c]\<close> of readout bits
  (\<open>ro[0]\<close> to \<open>ro[3]\<close>), \<^verbatim>\<open>state[0]\<close> is the ancilla's bit and \<^verbatim>\<open>state[-1]\<close> is the
  class bit, the two positions \<^verbatim>\<open>postselect\<close> reads.
\<close>

theorem interfere_appends_H_and_measurements:
  "interfere_data_and_test_instances circuit angles =
     circuit\<lparr>instructions := instructions circuit @
       [Declare ''ro'' ''BIT'' 4,
        Gate ''H'' [] [0],
        MEASURE 0 (''ro'', 0), MEASURE 1 (''ro'', 1),
        MEASURE 2 (''ro'', 2), MEASURE 3 (''ro'', 3)]\<rparr>
   \<and> str_getitem (outcome_string [of_bool a, of_bool i, of_bool d, of_bool c]) 0
       = Inr (py_str (of_bool a))
   \<and> str_getitem (outcome_string [of_bool a, of_bool i, of_bool d, of_bool c]) (- 1)
       = Inr (py_str (of_bool c))"
proof -
  have bit: "py_str (of_bool b) = (if b then ''1'' else ''0'')" for b
    by (simp add: py_str_0 py_str_1)
  have ext: "interfere_data_and_test_instances circuit angles =
     circuit\<lparr>instructions := instructions circuit @
       [Declare ''ro'' ''BIT'' 4,
        Gate ''H'' [] [0],
        MEASURE 0 (''ro'', 0), MEASURE 1 (''ro'', 1),
        MEASURE 2 (''ro'', 2), MEASURE 3 (''ro'', 3)]\<rparr>"
    by (simp add: interfere_data_and_test_instances_def declare_mem_def add_inst_def
        H_def upt_0_4)
  have first: "str_getitem (outcome_string [of_bool a, of_bool i, of_bool d, of_bool c]) 0
       = Inr (py_str (of_bool a))"
    by (simp add: str_getitem_def py_getitem_def outcome_string_def bit)
  have last: "str_getitem (outcome_string [of_bool a, of_bool i, of_bool d, of_bool c]) (- 1)
       = Inr (py_str (of_bool c))"
    by (simp add: str_getitem_def py_getitem_def outcome_string_def bit)
  from ext first last show ?thesis by blast
qed

text \<open>
  Claim C10. The \<open>angles\<close> argument of \<open>interfere_data_and_test_instances\<close> is never
  read: two calls on the same circuit give the same extended circuit, whatever the
  two angle arguments are.
\<close>

theorem interfere_ignores_angles:
  "interfere_data_and_test_instances circuit a1 = interfere_data_and_test_instances circuit a2"
  by (simp add: interfere_data_and_test_instances_def)

section \<open>Properties of the angle encoder\<close>

text \<open>
  Claim C4. For every \<open>a\<close> in \<open>[-1, 1]\<close>, \<open>get_angle a\<close> is the number \<open>2 * arccos a\<close>, an
  angle between 0 and \<open>2 * pi\<close> whose half has cosine \<open>a\<close>; and \<open>get_angle 1\<close> is 0.
\<close>

theorem get_angle_in_domain:
  "(- 1 \<le> a \<and> a \<le> 1 \<longrightarrow>
      get_angle a = Finite (2 * arccos a) \<and> cos (2 * arccos a / 2) = a
      \<and> 0 \<le> 2 * arccos a \<and> 2 * arccos a \<le> 2 * pi)
   \<and> get_angle 1 = Finite 0"
  by (simp add: get_angle_def np_arccos_def np_times_def arccos_lbound arccos_ubound)

text \<open>At \<open>a = 0\<close> the angle is \<open>pi\<close>.\<close>

theorem get_angle_in_domain_witness:
  "(- 1 \<le> (0::real) \<and> (0::real) \<le> 1) \<and> get_angle 0 = Finite pi \<and> get_angle 1 = Finite 0"
  using get_angle_in_domain [of 0] by simp

text \<open>
  Claim C7, as the code has it. For every \<open>a\<close> outside \<open>[-1, 1]\<close>, \<open>get_angle a\<close> raises
  nothing: its value is \<^verbatim>\<open>nan\<close>.
\<close>

theorem get_angle_out_of_domain_nan:
  "a < - 1 \<or> 1 < a \<Longrightarrow> get_angle a = NaN"
  by (auto simp: get_angle_def np_arccos_def np_times_def)

theorem get_angle_out_of_domain_nan_witness:
  "((2::real) < - 1 \<or> 1 < (2::real)) \<and> get_angle 2 = NaN"
  using get_angle_out_of_domain_nan [of 2] by simp

text \<open>
  Claim C7 as stated asks for a domain error outside \<open>[-1, 1]\<close>. At 2 and at \<open>-3/2\<close> the
  encoder returns a value, \<^verbatim>\<open>nan\<close>, to its caller.
\<close>

theorem get_angle_no_domain_error_counterexample:
  "get_angle 2 = NaN \<and> get_angle (- 3 / 2) = NaN"
  by (simp add: get_angle_def np_arccos_def np_times_def)

section \<open>Properties of postselection\<close>

subsection \<open>The code computes the specification's quantities\<close>

lemma dict_of_aux:
  "distinct (map fst (d @ pairs)) \<Longrightarrow>
     foldl (\<lambda>d (k, v). dict_setitem d k v) d pairs = d @ pairs"
proof (induction pairs arbitrary: d)
  case Nil
  then show ?case by simp
next
  case (Cons p pairs)
  obtain k v where p: "p = (k, v)" by (cases p)
  from Cons.prems have notin: "k \<notin> set (map fst d)" by (auto simp: p)
  have step: "dict_setitem d k v = d @ [(k, v)]"
    using notin by (simp add: dict_setitem_def)
  from Cons.prems have "distinct (map fst ((d @ [(k, v)]) @ pairs))" by (simp add: p)
  from Cons.IH [OF this] show ?case by (simp add: p step)
qed

lemma dict_of_distinct: "distinct (map fst pairs) \<Longrightarrow> dict_of pairs = pairs"
  using dict_of_aux [of "[]" pairs] by (simp add: dict_of_def)

lemma str_getitem_first: "s \<noteq> [] \<Longrightarrow> str_getitem s 0 = Inr [s ! 0]"
  by (simp add: str_getitem_def py_getitem_def)

lemma str_getitem_last4: "length s = 4 \<Longrightarrow> str_getitem s (- 1) = Inr [s ! 3]"
  by (simp add: str_getitem_def py_getitem_def)

lemma post_select_bit_strings:
  "list_all (\<lambda>(state, occurences). bit_string state \<and> P occurences) rc \<Longrightarrow>
     post_select rc = Inr (spec_postselected rc)"
proof (induction rc)
  case Nil
  then show ?case by (simp add: spec_postselected_def)
next
  case (Cons p rc)
  obtain state n where p: "p = (state, n)" by (cases p)
  from Cons.prems have ne: "state \<noteq> []" by (auto simp: p bit_string_def)
  from Cons.prems have "post_select rc = Inr (spec_postselected rc)"
    by (intro Cons.IH) simp
  then show ?case
    by (simp add: p str_getitem_first [OF ne] spec_postselected_def)
qed

lemma retrieve_class_bit_strings:
  "list_all (\<lambda>(state, occurences). bit_string state \<and> P occurences) ps \<Longrightarrow>
     retrieve_class ps k =
       Inr (map snd (filter (\<lambda>(state, occurences). [state ! 3] = py_str k) ps))"
proof (induction ps)
  case Nil
  then show ?case by simp
next
  case (Cons p ps)
  obtain state n where p: "p = (state, n)" by (cases p)
  from Cons.prems have len: "length state = 4" by (auto simp: p bit_string_def)
  from Cons.prems have "retrieve_class ps k =
       Inr (map snd (filter (\<lambda>(state, occurences). [state ! 3] = py_str k) ps))"
    by (intro Cons.IH) simp
  then show ?case
    by (simp add: p str_getitem_last4 [OF len])
qed

lemma bit_string_last:
  "bit_string state \<Longrightarrow> state ! 3 = CHR ''0'' \<or> state ! 3 = CHR ''1''"
  by (auto simp: bit_string_def list_all_length)

lemma class_counts_split:
  fixes ps :: counts
  shows "list_all (\<lambda>(state, occurences). bit_string state \<and> P occurences) ps \<Longrightarrow>
     sum_list (map snd (filter (\<lambda>(state, occurences). state ! 3 = CHR ''0'') ps)) +
     sum_list (map snd (filter (\<lambda>(state, occurences). state ! 3 = CHR ''1'') ps)) =
     sum_list (map snd ps)"
proof (induction ps)
  case Nil
  then show ?case by simp
next
  case (Cons p ps)
  obtain state n where p: "p = (state, n)" by (cases p)
  from Cons.prems have "bit_string state" by (simp add: p)
  from bit_string_last [OF this] Cons show ?case
    by (auto simp: p)
qed

lemma list_all_postselected:
  "list_all Q rc \<Longrightarrow> list_all Q (spec_postselected rc)"
  by (simp add: spec_postselected_def list_all_iff)

lemma spec_class_counts_sum:
  assumes "outcome_mapping rc"
  shows "spec_class_count rc CHR ''0'' + spec_class_count rc CHR ''1'' = spec_postselected_total rc"
proof -
  from assms have "list_all (\<lambda>(state, occurences). bit_string state \<and> 0 \<le> occurences) rc"
    by (simp add: outcome_mapping_def)
  then have "list_all (\<lambda>(state, occurences). bit_string state \<and> 0 \<le> occurences)
      (spec_postselected rc)"
    by (rule list_all_postselected)
  from class_counts_split [OF this] show ?thesis
    by (simp add: spec_class_count_def spec_postselected_total_def)
qed

lemma sum_list_filter_le:
  "list_all (\<lambda>(state, occurences). Q state \<and> (0::int) \<le> occurences) rc \<Longrightarrow>
     sum_list (map snd (filter F rc)) \<le> sum_list (map snd rc)"
  by (induction rc) (auto simp: add_increasing)

lemma sum_list_filter_nonneg:
  "list_all (\<lambda>(state, occurences). Q state \<and> (0::int) \<le> occurences) rc \<Longrightarrow>
     0 \<le> sum_list (map snd (filter F rc))"
  by (induction rc) auto

lemma spec_postselected_le_total:
  "outcome_mapping rc \<Longrightarrow> spec_postselected_total rc \<le> spec_total rc"
  unfolding outcome_mapping_def spec_postselected_total_def spec_total_def spec_postselected_def
  by (elim conjE, rule sum_list_filter_le)

lemma nondegenerate_pos:
  assumes "outcome_mapping rc" and "nondegenerate rc"
  shows "0 < spec_postselected_total rc"
proof -
  from assms(1) have nn: "list_all (\<lambda>(state, occurences). bit_string state \<and> 0 \<le> occurences) rc"
    by (simp add: outcome_mapping_def)
  have "list_all (\<lambda>(state, occurences). bit_string state \<and> 0 \<le> occurences) rc \<Longrightarrow>
        list_ex (\<lambda>(state, occurences). state ! 0 = CHR ''0'' \<and> 0 < occurences) rc \<Longrightarrow>
        0 < sum_list (map snd (filter (\<lambda>(state, occurences). state ! 0 = CHR ''0'') rc))"
  proof (induction rc)
    case Nil
    then show ?case by simp
  next
    case (Cons p rc)
    obtain state n where p: "p = (state, n)" by (cases p)
    from Cons.prems(1) have tl: "list_all (\<lambda>(state, occurences). bit_string state \<and> 0 \<le> occurences) rc"
      and n: "0 \<le> n" by (simp_all add: p)
    have rest: "0 \<le> sum_list (map snd (filter (\<lambda>(state, occurences). state ! 0 = CHR ''0'') rc))"
      using tl by (rule sum_list_filter_nonneg)
    show ?case
    proof (cases "state ! 0 = CHR ''0'' \<and> 0 < n")
      case True
      with rest show ?thesis by (simp add: p)
    next
      case False
      with Cons.prems(2) have "list_ex (\<lambda>(state, occurences). state ! 0 = CHR ''0'' \<and> 0 < occurences) rc"
        by (simp add: p)
      from Cons.IH [OF tl this] n show ?thesis by (simp add: p)
    qed
  qed
  from this [OF nn] assms(2) show ?thesis
    by (simp add: nondegenerate_def spec_postselected_total_def spec_postselected_def)
qed


lemma postselection_eq:
  assumes "outcome_mapping rc"
  shows "post_select rc = Inr (spec_postselected rc)"
    and "dict_of (spec_postselected rc) = spec_postselected rc"
    and "retrieve_class (spec_postselected rc) 0 =
           Inr (map snd (filter (\<lambda>(state, occurences). state ! 3 = CHR ''0'') (spec_postselected rc)))"
    and "retrieve_class (spec_postselected rc) 1 =
           Inr (map snd (filter (\<lambda>(state, occurences). state ! 3 = CHR ''1'') (spec_postselected rc)))"
proof -
  from assms have nn: "list_all (\<lambda>(state, occurences). bit_string state \<and> 0 \<le> occurences) rc"
    and dist: "distinct (map fst rc)"
    by (simp_all add: outcome_mapping_def)
  from nn show "post_select rc = Inr (spec_postselected rc)"
    by (rule post_select_bit_strings)
  from dist have "distinct (map fst (spec_postselected rc))"
    by (simp add: spec_postselected_def distinct_map_filter)
  then show "dict_of (spec_postselected rc) = spec_postselected rc"
    by (rule dict_of_distinct)
  from nn have ps: "list_all (\<lambda>(state, occurences). bit_string state \<and> 0 \<le> occurences)
      (spec_postselected rc)"
    by (rule list_all_postselected)
  from retrieve_class_bit_strings [OF ps, of 0]
  show "retrieve_class (spec_postselected rc) 0 =
           Inr (map snd (filter (\<lambda>(state, occurences). state ! 3 = CHR ''0'') (spec_postselected rc)))"
    by (simp add: py_str_0)
  from retrieve_class_bit_strings [OF ps, of 1]
  show "retrieve_class (spec_postselected rc) 1 =
           Inr (map snd (filter (\<lambda>(state, occurences). state ! 3 = CHR ''1'') (spec_postselected rc)))"
    by (simp add: py_str_1)
qed

lemma py_truediv_nonzero:
  "sum_list ys \<noteq> 0 \<Longrightarrow>
     py_truediv (py_sum xs) (py_sum ys) = Inr (Float (of_int (sum_list xs) / of_int (sum_list ys)))"
  by (cases "xs = []") (auto simp: py_sum_def np_true_divide_def)


lemma spec_class_count_sum: "spec_class_count rc k = sum_list (map snd (spec_class rc k))"
  by (simp add: spec_class_count_def spec_class_def)



lemma postselect_unfold:
  assumes "outcome_mapping rc"
  shows "postselect rc =
     (case py_truediv (py_sum (map snd (spec_postselected rc))) (py_sum (map snd rc)) of
        Inl e \<Rightarrow> ([], Inl e)
      | Inr rate \<Rightarrow>
         (case py_truediv (py_sum (map snd (spec_class rc CHR ''0'')))
                 (py_sum (map snd (spec_postselected rc))) of
            Inl e \<Rightarrow> ([(''Ancilla post-selection probability was found to be '', rate)], Inl e)
          | Inr prob_class0 \<Rightarrow>
             (case py_truediv (py_sum (map snd (spec_class rc CHR ''1'')))
                     (py_sum (map snd (spec_postselected rc))) of
                Inl e \<Rightarrow> ([(''Ancilla post-selection probability was found to be '', rate)], Inl e)
              | Inr prob_class1 \<Rightarrow>
                 ([(''Ancilla post-selection probability was found to be '', rate),
                   (''Probability for class 0 is'', prob_class0),
                   (''Probability for class 1 is'', prob_class1)], Inr ()))))"
  by (simp add: postselect_def postselection_eq [OF assms] spec_class_def Let_def
      split: sum.splits)

lemma postselect_nondegenerate:
  assumes "outcome_mapping rc" and "nondegenerate rc"
  shows "postselect rc =
     ([(''Ancilla post-selection probability was found to be '',
          Float (of_int (spec_postselected_total rc) / of_int (spec_total rc))),
       (''Probability for class 0 is'',
          Float (of_int (spec_class_count rc CHR ''0'') / of_int (spec_postselected_total rc))),
       (''Probability for class 1 is'',
          Float (of_int (spec_class_count rc CHR ''1'') / of_int (spec_postselected_total rc)))],
      Inr ())"
proof -
  have pos: "0 < spec_postselected_total rc"
    using assms by (rule nondegenerate_pos)
  have "spec_postselected_total rc \<le> spec_total rc"
    using assms(1) by (rule spec_postselected_le_total)
  with pos have total: "sum_list (map snd rc) \<noteq> 0"
    and sel: "sum_list (map snd (spec_postselected rc)) \<noteq> 0"
    by (simp_all add: spec_total_def spec_postselected_total_def)
  show ?thesis
    by (simp add: postselect_unfold [OF assms(1)] py_truediv_nonzero [OF total]
        py_truediv_nonzero [OF sel] spec_class_count_sum spec_total_def
        spec_postselected_total_def)
qed


subsection \<open>The claims about postselect\<close>

text \<open>
  Claim C2. For every outcome mapping in which some outcome with ancilla bit 0 has a
  positive count, \<open>postselect\<close> completes, the two class probabilities it computes add
  up to 1, and the postselected total (the numerator of the acceptance rate it prints)
  is at most the total count. Divisions are exact.
\<close>

theorem postselect_probabilities_sum_to_one:
  assumes "outcome_mapping rc" and "nondegenerate rc"
  shows "\<exists>rate prob_class0 prob_class1.
           postselect rc =
             ([(''Ancilla post-selection probability was found to be '', Float rate),
               (''Probability for class 0 is'', Float prob_class0),
               (''Probability for class 1 is'', Float prob_class1)], Inr ())
           \<and> rate = of_int (spec_postselected_total rc) / of_int (spec_total rc)
           \<and> prob_class0 + prob_class1 = 1
           \<and> spec_postselected_total rc \<le> spec_total rc"
proof -
  have pos: "0 < spec_postselected_total rc"
    using assms by (rule nondegenerate_pos)
  have le: "spec_postselected_total rc \<le> spec_total rc"
    using assms(1) by (rule spec_postselected_le_total)
  from pos have sel: "spec_postselected_total rc \<noteq> 0" by simp
  let ?p0 = "of_int (spec_class_count rc CHR ''0'') / of_int (spec_postselected_total rc) :: rat"
  let ?p1 = "of_int (spec_class_count rc CHR ''1'') / of_int (spec_postselected_total rc) :: rat"
  have run: "postselect rc =
             ([(''Ancilla post-selection probability was found to be '',
                  Float (of_int (spec_postselected_total rc) / of_int (spec_total rc))),
               (''Probability for class 0 is'', Float ?p0),
               (''Probability for class 1 is'', Float ?p1)], Inr ())"
    using assms by (rule postselect_nondegenerate)
  have "?p0 + ?p1 =
        of_int (spec_class_count rc CHR ''0'' + spec_class_count rc CHR ''1'') /
        of_int (spec_postselected_total rc)"
    by (simp add: add_divide_distrib)
  also have "\<dots> = 1"
    using sel by (simp only: spec_class_counts_sum [OF assms(1)]) simp
  finally have one: "?p0 + ?p1 = 1" .
  from run one le show ?thesis by blast
qed

text \<open>Three outcomes, two of them with ancilla bit 0.\<close>

theorem postselect_probabilities_sum_to_one_witness:
  "outcome_mapping [(''0000'', 3), (''0001'', 5), (''1000'', 2)]
   \<and> nondegenerate [(''0000'', 3), (''0001'', 5), (''1000'', 2)]
   \<and> (\<exists>rate prob_class0 prob_class1.
           postselect [(''0000'', 3), (''0001'', 5), (''1000'', 2)] =
             ([(''Ancilla post-selection probability was found to be '', Float rate),
               (''Probability for class 0 is'', Float prob_class0),
               (''Probability for class 1 is'', Float prob_class1)], Inr ())
           \<and> prob_class0 + prob_class1 = 1)"
proof -
  have m: "outcome_mapping [(''0000'', 3), (''0001'', 5), (''1000'', 2)]"
    by (simp add: outcome_mapping_def bit_string_def)
  have n: "nondegenerate [(''0000'', 3), (''0001'', 5), (''1000'', 2)]"
    by (simp add: nondegenerate_def)
  from postselect_probabilities_sum_to_one [OF m n] m n show ?thesis by blast
qed







text \<open>
  Claim C8, as the code has it. For every non-degenerate outcome mapping, \<open>postselect\<close>
  computes the acceptance rate \<open>postselected_total / total\<close> and, for each class \<open>k\<close>,
  the sum of the postselected counts whose class bit is \<open>k\<close> divided by
  \<open>postselected_total\<close>; it prints the three numbers and its value is \<^verbatim>\<open>None\<close>.
\<close>

theorem postselect_prints_statistics:
  assumes "outcome_mapping rc" and "nondegenerate rc"
  shows "postselect rc =
     ([(''Ancilla post-selection probability was found to be '',
          Float (of_int (spec_postselected_total rc) / of_int (spec_total rc))),
       (''Probability for class 0 is'',
          Float (of_int (spec_class_count rc CHR ''0'') / of_int (spec_postselected_total rc))),
       (''Probability for class 1 is'',
          Float (of_int (spec_class_count rc CHR ''1'') / of_int (spec_postselected_total rc)))],
      Inr ())"
  using assms by (rule postselect_nondegenerate)

text \<open>Three outcomes with total 10, postselected total 8 and class counts 3 and 5.\<close>

theorem postselect_prints_statistics_witness:
  "outcome_mapping [(''0000'', 3), (''0011'', 5), (''1001'', 2)]
   \<and> nondegenerate [(''0000'', 3), (''0011'', 5), (''1001'', 2)]
   \<and> postselect [(''0000'', 3), (''0011'', 5), (''1001'', 2)] =
     ([(''Ancilla post-selection probability was found to be '', Float (4 / 5)),
       (''Probability for class 0 is'', Float (3 / 8)),
       (''Probability for class 1 is'', Float (5 / 8))],
      Inr ())"
proof -
  have m: "outcome_mapping [(''0000'', 3), (''0011'', 5), (''1001'', 2)]"
    by (simp add: outcome_mapping_def bit_string_def)
  have n: "nondegenerate [(''0000'', 3), (''0011'', 5), (''1001'', 2)]"
    by (simp add: nondegenerate_def)
  from postselect_prints_statistics [OF m n] m n show ?thesis
    by (simp add: spec_total_def spec_postselected_total_def spec_class_count_def
        spec_postselected_def)
qed

text \<open>
  Claim C8 as stated has the statistics returned to the caller with no other effect.
  On two outcomes of one shot each, three lines are printed and the value returned is
  \<^verbatim>\<open>None\<close>.
\<close>

theorem postselect_returns_none_counterexample:
  "fst (postselect [(''0000'', 1), (''1001'', 1)]) =
     [(''Ancilla post-selection probability was found to be '', Float (1 / 2)),
      (''Probability for class 0 is'', Float 1),
      (''Probability for class 1 is'', Float 0)]
   \<and> fst (postselect [(''0000'', 1), (''1001'', 1)]) \<noteq> []
   \<and> snd (postselect [(''0000'', 1), (''1001'', 1)]) = Inr ()"
  by (simp add: postselect_def dict_of_def dict_setitem_def str_getitem_def py_getitem_def
      py_sum_def np_true_divide_def py_str_0 py_str_1)

section \<open>Properties of the notebook run\<close>

lemma remdups_replicate_Suc: "remdups (replicate (Suc n) x) = [x]"
  by (induction n) auto

lemma remdups_replicate_pos: "0 < n \<Longrightarrow> remdups (replicate n x) = [x]"
  using remdups_replicate_Suc [of "n - 1" x] by simp

lemma count_list_replicate_same: "count_list (replicate n x) x = n"
  by (induction n) auto

lemma count_dict_replicate:
  "0 < n \<Longrightarrow> count_dict (replicate n row) = [(outcome_string row, int n)]"
  by (simp add: count_dict_def np_unique_counts_def remdups_replicate_pos
      count_list_replicate_same dict_of_def dict_setitem_def)

lemma outcome_1000: "outcome_string [1, 0, 0, 0] = ''1000''"
  by (simp add: outcome_string_def py_str_0 py_str_1)

lemma outcome_0001: "outcome_string [0, 0, 0, 1] = ''0001''"
  by (simp add: outcome_string_def py_str_0 py_str_1)

lemma run_test_instance_servers:
  "run_test_instance qc angles s = (s', r) \<Longrightarrow>
     qvm_server s' = qvm_server s \<and> quilc_server s' = quilc_server s"
  by (auto simp: run_test_instance_def Let_def split: sum.splits prod.splits)

lemma run_test_instance_collected:
  "run_test_instance qc angles s = (s', Inr u) \<Longrightarrow> collected s' = collected s + 1"
  by (auto simp: run_test_instance_def Let_def split: sum.splits prod.splits)

lemma notebook_success:
  assumes "notebook qc = (s, Inr u)"
  shows "\<not> qvm_server s \<and> \<not> quilc_server s \<and> collected s = 2"
  using assms
  by (auto simp: notebook_def Let_def init_qvm_and_quilc_def
      split: sum.splits prod.splits dest!: run_test_instance_collected)

lemma notebook_failure:
  assumes "notebook qc = (s, Inl e)"
  shows "qvm_server s \<and> quilc_server s"
  using assms
  by (auto simp: notebook_def Let_def init_qvm_and_quilc_def
      split: sum.splits prod.splits dest!: run_test_instance_servers)

lemma prepare_state_pair_ok: "\<exists>c. prepare_state [x, y] = Inr c"
  by (simp add: prepare_state_def py_getitem_def)

lemma run_all_ancilla_one:
  "run_test_instance all_ancilla_one [x, y] s =
     (s\<lparr>collected := collected s + 1,
        stdout := stdout s @
          [(''Ancilla post-selection probability was found to be '', Float 0)]\<rparr>,
      Inl ZeroDivisionError)"
proof -
  from prepare_state_pair_ok [of x y] obtain c where c: "prepare_state [x, y] = Inr c" ..
  have m: "outcome_mapping [(''1000'', 1024)]"
    by (simp add: outcome_mapping_def bit_string_def)
  have p: "postselect [(''1000'', 1024)] =
      ([(''Ancilla post-selection probability was found to be '', Float 0)],
       Inl ZeroDivisionError)"
    by (simp add: postselect_unfold [OF m] py_sum_def np_true_divide_def
        spec_postselected_def spec_class_def)
  show ?thesis
    by (simp add: run_test_instance_def c all_ancilla_one_def count_dict_replicate
        outcome_1000 p)
qed

lemma run_all_class_one:
  "run_test_instance all_class_one [x, y] s =
     (s\<lparr>collected := collected s + 1,
        stdout := stdout s @
          [(''Ancilla post-selection probability was found to be '', Float 1),
           (''Probability for class 0 is'', Float 0),
           (''Probability for class 1 is'', Float 1)]\<rparr>,
      Inr ())"
proof -
  from prepare_state_pair_ok [of x y] obtain c where c: "prepare_state [x, y] = Inr c" ..
  have m: "outcome_mapping [(''0001'', 1024)]"
    by (simp add: outcome_mapping_def bit_string_def)
  have p: "postselect [(''0001'', 1024)] =
      ([(''Ancilla post-selection probability was found to be '', Float 1),
           (''Probability for class 0 is'', Float 0),
           (''Probability for class 1 is'', Float 1)], Inr ())"
    by (simp add: postselect_unfold [OF m] py_sum_def np_true_divide_def
        spec_postselected_def spec_class_def)
  show ?thesis
    by (simp add: run_test_instance_def c all_class_one_def count_dict_replicate
        outcome_0001 p)
qed

lemma notebook_all_class_one: "\<exists>s. notebook all_class_one = (s, Inr ())"
  by (simp add: notebook_def run_all_class_one)

lemma notebook_all_ancilla_one: "\<exists>s. notebook all_ancilla_one = (s, Inl ZeroDivisionError)"
  by (simp add: notebook_def run_all_ancilla_one)

text \<open>
  Claim C9, as the code has it. When every cell completes without raising, both server
  processes have been terminated at the end of the run, after both sample collections.
  The two \<^verbatim>\<open>terminate\<close> calls are the last cell and nothing guards them: a run
  that raises ends with both processes still running.
\<close>

theorem notebook_terminates_servers_only_on_success:
  "(notebook qc = (s, Inr u) \<longrightarrow> \<not> qvm_server s \<and> \<not> quilc_server s \<and> collected s = 2)
   \<and> (notebook qc = (s, Inl e) \<longrightarrow> qvm_server s \<and> quilc_server s)"
  using notebook_success [of qc s u] notebook_failure [of qc s e] by blast

text \<open>
  A run that completes (every shot reads ancilla 0), and a run that raises (every shot
  reads ancilla 1).
\<close>

theorem notebook_terminates_servers_only_on_success_witness:
  "snd (notebook all_class_one) = Inr ()
   \<and> \<not> qvm_server (fst (notebook all_class_one))
   \<and> \<not> quilc_server (fst (notebook all_class_one))
   \<and> collected (fst (notebook all_class_one)) = 2
   \<and> snd (notebook all_ancilla_one) = Inl ZeroDivisionError
   \<and> qvm_server (fst (notebook all_ancilla_one))
   \<and> quilc_server (fst (notebook all_ancilla_one))"
proof -
  obtain s where s: "notebook all_class_one = (s, Inr ())"
    using notebook_all_class_one by blast
  obtain t where t: "notebook all_ancilla_one = (t, Inl ZeroDivisionError)"
    using notebook_all_ancilla_one by blast
  from notebook_terminates_servers_only_on_success [of all_class_one s "()" ZeroDivisionError]
    notebook_terminates_servers_only_on_success [of all_ancilla_one t "()" ZeroDivisionError]
    s t
  show ?thesis by simp
qed

text \<open>
  Claim C9 as stated has the servers terminated on every path. When all 1024 shots of
  the first circuit read ancilla 1, \<^verbatim>\<open>postselect\<close> raises \<^verbatim>\<open>ZeroDivisionError\<close> after the
  first sample collection and the run ends with both servers running.
\<close>

theorem notebook_servers_left_running_counterexample:
  "qvm_server (fst (notebook all_ancilla_one))
   \<and> quilc_server (fst (notebook all_ancilla_one))
   \<and> collected (fst (notebook all_ancilla_one)) = 1
   \<and> snd (notebook all_ancilla_one) = Inl ZeroDivisionError"
  by (simp add: notebook_def run_all_ancilla_one init_qvm_and_quilc_def)

end
